theory Spec2Isabelle
  imports Main "HOL-Library.Word"
begin

unbundle bit_operations_syntax

section \<open>The data of package message\<close>

text \<open>
  Go's \<open>int64\<close> is a 64-bit word read as two's complement (\<open>sint\<close>). Go's \<open>int\<close>
  is taken at its width on a 64-bit target, where the conversion \<open>int(x)\<close> of an
  \<open>int64\<close> is the identity. A Go \<open>string\<close> and a \<open>[]byte\<close> are both byte sequences:
  \<open>string\<close> here (a \<open>char\<close> is one byte).
\<close>

type_synonym int64 = "64 word"

text \<open>A Go \<open>error\<close> value, with the text its \<open>Error()\<close> method returns.\<close>

datatype go_error = Error (Error_text: string)

text \<open>
  A Go call either returns or panics. A failed unchecked type assertion \<open>x.(T)\<close>
  panics with an interface-conversion run-time error; the text kept is the type \<open>T\<close>
  that was asserted.
\<close>

datatype 'a go_result = Panic string | Returns 'a

text \<open>
  \<open>time.Time\<close>, as far as the code reads it: \<open>Unix()\<close> and \<open>IsZero()\<close>. The zero
  \<open>time.Time\<close> is January 1, year 1, 00:00:00 UTC, which is second -62135596800 of
  the Unix era.
\<close>

datatype time_Time = Time (Unix: int64) (Nanosecond: nat)

definition IsZero :: "time_Time \<Rightarrow> bool" where
  "IsZero t \<longleftrightarrow> Unix t = - 62135596800 \<and> Nanosecond t = 0"

text \<open>
  The values an \<open>amqp.Table\<close> (a \<open>map[string]interface{}\<close>) holds, by dynamic type:
  the ones the code asserts (\<open>int64\<close>, \<open>string\<close>, \<open>time.Time\<close>, \<open>[]interface{}\<close>,
  \<open>amqp.Table\<close>, and the nil interface) and three others that every assertion of
  the code rejects.
\<close>

datatype table_value =
    FNil
  | FBool bool
  | FInt32 "32 word"
  | FInt64 int64
  | FString string
  | FBytes string
  | FTime time_Time
  | FList "table_value list"
  | FTable "string \<Rightarrow> table_value option"

type_synonym amqp_Table = "string \<Rightarrow> table_value option"

text \<open>
  \<open>amqp.Delivery\<close>: the three fields the code reads. \<open>Delivery_Headers\<close> is
  \<open>None\<close> for a nil table (a message published without headers).
\<close>

record amqp_Delivery =
  Delivery_Headers :: "amqp_Table option"
  Delivery_Timestamp :: time_Time
  Delivery_Body :: string

text \<open>
  \<open>HttpRequestMessage\<close> (message.go, lines 17 to 48). A nil \<open>Headers\<close> map reads
  like the empty one, and the code writes to it only after \<open>make\<close>, so both are the
  empty map here.
\<close>

record HttpRequestMessage =
  Delivery :: amqp_Delivery
  MessageId :: string
  Url :: string
  Headers :: "string \<Rightarrow> string option"
  Body :: string
  Timestamp :: int64
  Expiration :: int64
  RetryCnt :: int64
  FirstRejectionTime :: int64
  HttpStatusMsg :: string
  HttpRespBody :: string
  HttpErr :: "go_error option"
  Drop :: bool

text \<open>The zero values \<open>amqp.Delivery{}\<close> and \<open>HttpRequestMessage{}\<close>.\<close>

definition zero_Delivery :: amqp_Delivery where
  "zero_Delivery =
     \<lparr>Delivery_Headers = None, Delivery_Timestamp = Time (- 62135596800) 0,
      Delivery_Body = []\<rparr>"

definition zero_Message :: HttpRequestMessage where
  "zero_Message =
     \<lparr>Delivery = zero_Delivery, MessageId = [], Url = [], Headers = Map.empty,
      Body = [], Timestamp = 0, Expiration = 0, RetryCnt = 0, FirstRejectionTime = 0,
      HttpStatusMsg = [], HttpRespBody = [], HttpErr = None, Drop = False\<rparr>"

text \<open>The local struct \<open>MessageFields\<close> of \<open>Parse\<close> (lines 51 to 55).\<close>

record MessageFields =
  Fields_Url :: string
  Fields_Headers :: "(string \<Rightarrow> string option) list"
  Fields_Body :: string

text \<open>
  Modelled from the spec: package \<open>logfile\<close> of this repository is not among the
  sources. Its \<open>Logger\<close> "accepts leveled free-form write calls for informational
  and debug-level records; no return value, fire-and-forget". The log is the list of
  the calls made, oldest first.
\<close>

datatype log_entry =
    Write string
  | WriteDebug_Message string HttpRequestMessage
  | WriteDebug_Int string int64

text \<open>
  What \<open>Parse\<close> calls outside the package: \<open>json.Unmarshal\<close> into a
  \<open>MessageFields\<close>, \<open>md5.Sum\<close> (its \<open>[16]byte\<close> read as one big-endian 128-bit
  word) and \<open>time.Now().Unix()\<close>.
\<close>

record parse_env =
  json_Unmarshal :: "string \<Rightarrow> go_error + MessageFields"
  md5_Sum :: "string \<Rightarrow> 128 word"
  time_Now_Unix :: int64

section \<open>Formatting\<close>

text \<open>\<open>fmt.Sprintf("%x", sum)\<close> of a \<open>[16]byte\<close>: two lower-case hex digits a byte.\<close>

definition hex_digit :: "nat \<Rightarrow> char" where
  "hex_digit n = ''0123456789abcdef'' ! (n mod 16)"

definition Sprintf_x :: "128 word \<Rightarrow> string" where
  "Sprintf_x w = map (\<lambda>i. hex_digit (unat (drop_bit (4 * i) w AND 15))) (rev [0..<32])"

text \<open>\<open>fmt.Sprintf("%d", n)\<close> of an integer.\<close>

function Sprintf_nat :: "nat \<Rightarrow> string" where
  "Sprintf_nat n =
     (if n < 10 then [hex_digit n] else Sprintf_nat (n div 10) @ [hex_digit (n mod 10)])"
  by pat_completeness auto
termination
  by (relation "measure id") auto

declare Sprintf_nat.simps [simp del]

definition Sprintf_d :: "int \<Rightarrow> string" where
  "Sprintf_d i = (if i < 0 then ''-'' @ Sprintf_nat (nat (- i)) else Sprintf_nat (nat i))"

section \<open>Parse\<close>

text \<open>
  Lines 74 to 79: \<open>msg.Headers\<close> starts empty and every entry of every map of the
  sequence is stored into it, in sequence order. The keys of one Go map are distinct,
  so whatever order \<open>range m\<close> takes, storing all entries of \<open>m\<close> into \<open>acc\<close> gives
  \<open>acc ++ m\<close>.
\<close>

fun flatten_Headers ::
  "(string \<Rightarrow> string option) \<Rightarrow> (string \<Rightarrow> string option) list \<Rightarrow> (string \<Rightarrow> string option)"
where
  "flatten_Headers acc [] = acc"
| "flatten_Headers acc (m # ms) = flatten_Headers (acc ++ m) ms"

text \<open>
  \<open>getRetryInfo\<close> (lines 134 to 164). The four type assertions are unchecked: each
  one that fails panics. \<open>queueDeathHistory[1]\<close> is read only when the length is 2.
\<close>

definition getRetryInfo :: "amqp_Table \<Rightarrow> (int64 \<times> int64) go_result" where
  "getRetryInfo rmqHeaders =
     (case rmqHeaders ''x-death'' of
        None \<Rightarrow> Returns (0, 0)
      | Some deathHistory \<Rightarrow>
          (case deathHistory of
             FList queueDeathHistory \<Rightarrow>
               if length queueDeathHistory = 2 then
                 (case queueDeathHistory ! 1 of
                    FTable mainQueueDeathHistory \<Rightarrow>
                      (case (case mainQueueDeathHistory ''count'' of
                               None \<Rightarrow> Returns 0
                             | Some retries \<Rightarrow>
                                 (case retries of
                                    FInt64 n \<Rightarrow> Returns n
                                  | _ \<Rightarrow> Panic ''int64'')) of
                         Panic p \<Rightarrow> Panic p
                       | Returns retryCnt \<Rightarrow>
                           (case mainQueueDeathHistory ''time'' of
                              None \<Rightarrow> Returns (retryCnt, 0)
                            | Some rejectTime \<Rightarrow>
                                (case rejectTime of
                                   FNil \<Rightarrow> Returns (retryCnt, 0)
                                 | FTime t \<Rightarrow> Returns (retryCnt, Unix t)
                                 | _ \<Rightarrow> Panic ''time.Time'')))
                  | _ \<Rightarrow> Panic ''amqp.Table'')
               else Returns (0, 0)
           | _ \<Rightarrow> Panic ''[]interface {}''))"

text \<open>Lines 94 to 103: the \<open>expiration\<close> header.\<close>

definition parse_expiration ::
  "int64 \<Rightarrow> amqp_Table \<Rightarrow> HttpRequestMessage \<times> log_entry list \<Rightarrow> HttpRequestMessage \<times> log_entry list"
where
  "parse_expiration now rmqHeaders s =
     (case rmqHeaders ''expiration'' of
        None \<Rightarrow> s
      | Some expirationHdr \<Rightarrow>
          (case expirationHdr of
             FInt64 expiration \<Rightarrow>
               if sint expiration < sint now
               then (fst s, snd s @ [Write ''Header value 'expiration' is invalid, or the expiration time has already past. Default TTL will be used.''])
               else ((fst s)\<lparr>Expiration := expiration\<rparr>, snd s)
           | _ \<Rightarrow> (fst s, snd s @ [Write ''Header value 'expiration' is invalid, or the expiration time has already past. Default TTL will be used.''])))"

text \<open>Lines 105 to 121: the \<open>message_id\<close> header and the md5 fallback.\<close>

definition parse_message_id ::
  "(string \<Rightarrow> 128 word) \<Rightarrow> string \<Rightarrow> amqp_Table \<Rightarrow> HttpRequestMessage \<times> log_entry list \<Rightarrow> HttpRequestMessage \<times> log_entry list"
where
  "parse_message_id md5 body rmqHeaders s =
     (let s1 =
        (case rmqHeaders ''message_id'' of
           None \<Rightarrow> s
         | Some messageIdHdr \<Rightarrow>
             (case messageIdHdr of
                FString messageId \<Rightarrow>
                  if length messageId = 0
                  then (fst s, snd s @ [Write ''Header value 'message_id' is invalid or empty. The Message ID will be the md5 hash of the RabbitMQ message body.''])
                  else ((fst s)\<lparr>MessageId := messageId\<rparr>, snd s)
              | _ \<Rightarrow> (fst s, snd s @ [Write ''Header value 'message_id' is invalid or empty. The Message ID will be the md5 hash of the RabbitMQ message body.''])));
          msg = fst s1
      in if length (MessageId msg) = 0
         then
           (let msg1 = msg\<lparr>MessageId := Sprintf_x (md5 body)\<rparr>
            in if 0 < sint (Timestamp msg1)
               then (msg1\<lparr>MessageId := MessageId msg1 @ ''-'' @ Sprintf_d (sint (Timestamp msg1))\<rparr>, snd s1)
               else (msg1, snd s1))
         else s1)"

text \<open>Lines 127 to 131: the three debug records and the nil error.\<close>

definition parse_finish ::
  "HttpRequestMessage \<times> log_entry list \<Rightarrow> (go_error option \<times> HttpRequestMessage \<times> log_entry list) go_result"
where
  "parse_finish s =
     Returns (None, fst s,
       snd s @ [WriteDebug_Message ''Message fields:'' (fst s),
                WriteDebug_Int ''Retry:'' (RetryCnt (fst s)),
                WriteDebug_Int ''First Rejection Time:'' (FirstRejectionTime (fst s))])"

text \<open>
  Lines 71 to 88: the fields of the decoded body and the creation time. A zero
  \<open>rmqDelivery.Timestamp\<close> leaves \<open>msg.Timestamp\<close> as it was.
\<close>

definition parse_fields ::
  "MessageFields \<Rightarrow> amqp_Delivery \<Rightarrow> HttpRequestMessage \<Rightarrow> HttpRequestMessage"
where
  "parse_fields flds rmqDelivery msg0 =
     (let msg1 = msg0\<lparr>Url := Fields_Url flds\<rparr>;
          msg2 = msg1\<lparr>Headers := flatten_Headers Map.empty (Fields_Headers flds)\<rparr>;
          msg3 = msg2\<lparr>Body := Fields_Body flds\<rparr>
      in if \<not> IsZero (Delivery_Timestamp rmqDelivery)
         then msg3\<lparr>Timestamp := Unix (Delivery_Timestamp rmqDelivery)\<rparr>
         else msg3)"

text \<open>
  \<open>Parse\<close> (lines 50 to 132). The receiver is a pointer: the message before the call
  is the argument \<open>msg\<close>, the message after it is in the result, also when \<open>Parse\<close>
  returns an error. The result is \<open>Panic\<close> when \<open>getRetryInfo\<close> panics.
\<close>

definition Parse ::
  "parse_env \<Rightarrow> HttpRequestMessage \<Rightarrow> amqp_Delivery \<Rightarrow> log_entry list \<Rightarrow>
     (go_error option \<times> HttpRequestMessage \<times> log_entry list) go_result"
where
  "Parse env msg rmqDelivery logFile =
     (let msg0 = msg\<lparr>Delivery := rmqDelivery\<rparr> in
      case json_Unmarshal env (Delivery_Body rmqDelivery) of
        Inl err \<Rightarrow> Returns (Some err, msg0, logFile)
      | Inr flds \<Rightarrow>
          if length (Fields_Url flds) = 0
          then Returns (Some (Error ''Field 'url' is empty or missing''), msg0, logFile)
          else
            (let msg4 = parse_fields flds rmqDelivery msg0
             in case Delivery_Headers rmqDelivery of
                  None \<Rightarrow> parse_finish (msg4, logFile)
                | Some rmqHeaders \<Rightarrow>
                    (let s1 = parse_expiration (time_Now_Unix env) rmqHeaders (msg4, logFile);
                         s2 = parse_message_id (md5_Sum env) (Delivery_Body rmqDelivery) rmqHeaders s1
                     in case getRetryInfo rmqHeaders of
                          Panic p \<Rightarrow> Panic p
                        | Returns r \<Rightarrow>
                            parse_finish ((fst s2)\<lparr>RetryCnt := fst r, FirstRejectionTime := snd r\<rparr>, snd s2))))"

section \<open>HttpPost\<close>

text \<open>
  What \<open>HttpPost\<close> calls in \<open>net/http\<close>. \<open>'req\<close> is \<open>*http.Request\<close>.
  \<^item> \<open>http_NewRequest method url body\<close>: the request or the error.
  \<^item> \<open>Header_Set req key val\<close>: the request after \<open>req.Header.Set(key, val)\<close>.
  \<^item> \<open>range_Headers m\<close>: the entries of the map \<open>m\<close> in the order in which this
    run's \<open>range\<close> visits them.
  \<^item> \<open>client_Do timeout req\<close>: what \<open>client.Do(req)\<close> returns for a client with
    that \<open>Timeout\<close> (a \<open>time.Duration\<close>, in nanoseconds): the response or the error.

  A response is read as far as the code reads it: \<open>Status\<close>, \<open>StatusCode\<close> and what
  \<open>ioutil.ReadAll(resp.Body)\<close> returns, the bytes or the error.
\<close>

record http_Response =
  Status :: string
  StatusCode :: int
  ReadAll_Body :: "go_error + string"

record 'req http_env =
  http_NewRequest :: "string \<Rightarrow> string \<Rightarrow> string \<Rightarrow> go_error + 'req"
  Header_Set :: "'req \<Rightarrow> string \<Rightarrow> string \<Rightarrow> 'req"
  range_Headers :: "(string \<Rightarrow> string option) \<Rightarrow> (string \<times> string) list"
  client_Do :: "int64 \<Rightarrow> 'req \<Rightarrow> go_error + http_Response"

text \<open>Lines 178 to 180: every entry of \<open>msg.Headers\<close> is set on the request.\<close>

definition set_Headers :: "'req http_env \<Rightarrow> HttpRequestMessage \<Rightarrow> 'req \<Rightarrow> 'req" where
  "set_Headers net msg req =
     fold (\<lambda>(hkey, hval) r. Header_Set net r hkey hval) (range_Headers net (Headers msg)) req"

text \<open>
  \<open>HttpPost\<close> (lines 166 to 218). The receiver is a value: \<open>msg\<close> is the callee's
  copy. The channel \<open>ackCh\<close> is the list of the messages sent on it, oldest first,
  and a send appends; the result is the channel after the call. \<open>timeout\<close> is a Go
  \<open>int\<close>, and \<open>time.Duration(timeout) * time.Second\<close> wraps at 64 bits.
\<close>

definition HttpPost ::
  "'req http_env \<Rightarrow> HttpRequestMessage \<Rightarrow> HttpRequestMessage list \<Rightarrow> int64 \<Rightarrow>
     HttpRequestMessage list"
where
  "HttpPost net msg ackCh timeout =
     (case http_NewRequest net ''POST'' (Url msg) (Body msg) of
        Inl err \<Rightarrow>
          ackCh @ [msg\<lparr>HttpErr := Some err,
                        HttpStatusMsg := ''Invalid http request: '' @ Error_text err,
                        Drop := True\<rparr>]
      | Inr req0 \<Rightarrow>
          (let req = set_Headers net msg req0
           in case client_Do net (timeout * 1000000000) req of
                Inl err \<Rightarrow>
                  ackCh @ [msg\<lparr>HttpErr := Some err,
                                HttpStatusMsg := ''Error on http POST: '' @ Error_text err\<rparr>]
              | Inr resp \<Rightarrow>
                  (let msg1 =
                     (case ReadAll_Body resp of
                        Inl err \<Rightarrow>
                          msg\<lparr>HttpRespBody := ''Error encountered when reading POST response body''\<rparr>
                      | Inr htmlData \<Rightarrow>
                          msg\<lparr>HttpStatusMsg := Status resp, HttpRespBody := htmlData\<rparr>)
                   in if 400 \<le> StatusCode resp \<and> StatusCode resp \<le> 499
                      then ackCh @ [msg1\<lparr>HttpErr := Some (Error (''4XX status on http POST (no retry): '' @ Status resp)),
                                          Drop := True\<rparr>]
                      else if 200 \<le> StatusCode resp \<and> StatusCode resp \<le> 299
                      then ackCh @ [msg1\<lparr>Drop := True\<rparr>]
                      else ackCh @ [msg1\<lparr>HttpErr := Some (Error (''Error on http POST: '' @ Status resp))\<rparr>])))"

text \<open>
  \<open>HttpPost\<close> once more, with the struct variables in a store, to see which of
  them it writes. The store is the list of the \<open>HttpRequestMessage\<close> variables
  that exist, a variable's address is its index, and the assignment \<open>msg.F = v\<close>
  to the variable at address \<open>a\<close> is \<open>assign store a (\<lambda>m. m\<lparr>F := v\<rparr>)\<close>.
  The receiver of line 166 is a value (\<open>func (msg HttpRequestMessage) HttpPost\<close>,
  where \<open>Parse\<close> at line 50 has a pointer): on entry the struct at \<open>caller\<close>, the
  variable the method is called on, is copied into a new variable \<open>msg\<close>, and the
  statements of the body read and assign that one. A send \<open>ackCh <- msg\<close> sends
  the value \<open>msg\<close> has then. The result is the store and the channel after the
  call.
\<close>

definition assign ::
  "HttpRequestMessage list \<Rightarrow> nat \<Rightarrow> (HttpRequestMessage \<Rightarrow> HttpRequestMessage) \<Rightarrow>
     HttpRequestMessage list"
where
  "assign store a f = store[a := f (store ! a)]"

definition HttpPost_store ::
  "'req http_env \<Rightarrow> HttpRequestMessage list \<Rightarrow> nat \<Rightarrow> HttpRequestMessage list \<Rightarrow> int64 \<Rightarrow>
     HttpRequestMessage list \<times> HttpRequestMessage list"
where
  "HttpPost_store net store caller ackCh timeout =
     (let msg = length store;
          s0 = store @ [store ! caller]
      in case http_NewRequest net ''POST'' (Url (s0 ! msg)) (Body (s0 ! msg)) of
           Inl err \<Rightarrow>
             (let s1 = assign s0 msg (\<lambda>m. m\<lparr>HttpErr := Some err\<rparr>);
                  s2 = assign s1 msg
                         (\<lambda>m. m\<lparr>HttpStatusMsg := ''Invalid http request: '' @ Error_text err\<rparr>);
                  s3 = assign s2 msg (\<lambda>m. m\<lparr>Drop := True\<rparr>)
              in (s3, ackCh @ [s3 ! msg]))
         | Inr req0 \<Rightarrow>
             (let req = set_Headers net (s0 ! msg) req0
              in case client_Do net (timeout * 1000000000) req of
                   Inl err \<Rightarrow>
                     (let s1 = assign s0 msg (\<lambda>m. m\<lparr>HttpErr := Some err\<rparr>);
                          s2 = assign s1 msg
                                 (\<lambda>m. m\<lparr>HttpStatusMsg := ''Error on http POST: '' @ Error_text err\<rparr>)
                      in (s2, ackCh @ [s2 ! msg]))
                 | Inr resp \<Rightarrow>
                     (let s1 =
                        (case ReadAll_Body resp of
                           Inl err \<Rightarrow>
                             assign s0 msg
                               (\<lambda>m. m\<lparr>HttpRespBody := ''Error encountered when reading POST response body''\<rparr>)
                         | Inr htmlData \<Rightarrow>
                             assign (assign s0 msg (\<lambda>m. m\<lparr>HttpStatusMsg := Status resp\<rparr>)) msg
                               (\<lambda>m. m\<lparr>HttpRespBody := htmlData\<rparr>))
                      in if 400 \<le> StatusCode resp \<and> StatusCode resp \<le> 499
                         then
                           (let s2 = assign s1 msg
                                       (\<lambda>m. m\<lparr>HttpErr := Some (Error (''4XX status on http POST (no retry): '' @ Status resp))\<rparr>);
                                s3 = assign s2 msg (\<lambda>m. m\<lparr>Drop := True\<rparr>)
                            in (s3, ackCh @ [s3 ! msg]))
                         else if 200 \<le> StatusCode resp \<and> StatusCode resp \<le> 299
                         then
                           (let s2 = assign s1 msg (\<lambda>m. m\<lparr>Drop := True\<rparr>)
                            in (s2, ackCh @ [s2 ! msg]))
                         else
                           (let s2 = assign s1 msg
                                       (\<lambda>m. m\<lparr>HttpErr := Some (Error (''Error on http POST: '' @ Status resp))\<rparr>)
                            in (s2, ackCh @ [s2 ! msg])))))"

text \<open>
  The spec's Disposition, read off the pair (\<open>Drop\<close>, \<open>HttpErr\<close>) that the code
  sets: dropped without an error is Accepted, dropped with an error is Dropped, not
  dropped is RetryEligible.
\<close>

datatype Disposition = Accepted | Dropped | RetryEligible

definition disposition :: "HttpRequestMessage \<Rightarrow> Disposition" where
  "disposition m =
     (if Drop m then (if HttpErr m = None then Accepted else Dropped) else RetryEligible)"

section \<open>Sample inputs\<close>

text \<open>
  Two message bodies with what \<open>encoding/json\<close> decodes them to and their MD5
  digests, for evaluating the code on concrete deliveries.
\<close>

definition body_plain :: string where
  \<open>body_plain = ''{"url":"http://x/y"}''\<close>

definition body_headers :: string where
  \<open>body_headers = ''{"url":"http://x/y","headers":[{"A":"1"},{"A":"2"}],"body":"payload"}''\<close>

definition sample_Unmarshal :: "string \<Rightarrow> go_error + MessageFields" where
  "sample_Unmarshal b =
     (if b = body_plain
      then Inr \<lparr>Fields_Url = ''http://x/y'', Fields_Headers = [], Fields_Body = []\<rparr>
      else if b = body_headers
      then Inr \<lparr>Fields_Url = ''http://x/y'',
                Fields_Headers = [[''A'' \<mapsto> ''1''], [''A'' \<mapsto> ''2'']],
                Fields_Body = ''payload''\<rparr>
      else Inl (Error ''unexpected end of JSON input''))"

definition sample_md5 :: "string \<Rightarrow> 128 word" where
  "sample_md5 b =
     (if b = body_plain then 0xeca007c3de688c5e6bd9ff8251dbbcbc
      else if b = body_headers then 0xa0996e9a0b8bd5830dc1550afd914ffd
      else 0)"

definition sample_env :: parse_env where
  "sample_env =
     \<lparr>json_Unmarshal = sample_Unmarshal, md5_Sum = sample_md5, time_Now_Unix = 1700000000\<rparr>"

text \<open>
  A network for evaluating \<open>HttpPost\<close>: a request is its URL, \<open>http://bad url\<close>
  does not parse, host \<open>down\<close> refuses the connection, and the other URLs answer
  with a status read off the path; \<open>/broken\<close> answers 200 with a body whose read
  fails.
\<close>

definition sample_NewRequest :: "string \<Rightarrow> string \<Rightarrow> string \<Rightarrow> go_error + string" where
  "sample_NewRequest method url body =
     (if url = ''http://bad url''
      then Inl (Error ''invalid character in host name'')
      else Inr url)"

definition sample_Do :: "int64 \<Rightarrow> string \<Rightarrow> go_error + http_Response" where
  "sample_Do timeout req =
     (if req = ''http://down/''
      then Inl (Error ''dial tcp: connection refused'')
      else if req = ''http://x/201''
      then Inr \<lparr>Status = ''201 Created'', StatusCode = 201, ReadAll_Body = Inr ''ok''\<rparr>
      else if req = ''http://x/404''
      then Inr \<lparr>Status = ''404 Not Found'', StatusCode = 404, ReadAll_Body = Inr []\<rparr>
      else if req = ''http://x/broken''
      then Inr \<lparr>Status = ''200 OK'', StatusCode = 200,
                ReadAll_Body = Inl (Error ''unexpected EOF'')\<rparr>
      else Inr \<lparr>Status = ''503 Service Unavailable'', StatusCode = 503,
                ReadAll_Body = Inr ''busy''\<rparr>)"

definition sample_net :: "string http_env" where
  "sample_net =
     \<lparr>http_NewRequest = sample_NewRequest, Header_Set = (\<lambda>r k v. r),
      range_Headers = (\<lambda>m. []), client_Do = sample_Do\<rparr>"

text \<open>
  Deliveries of \<open>body_plain\<close>: one with a given attribute table (or none) and
  creation time, and one whose table holds only a given \<open>x-death\<close> value.
\<close>

definition delivery_plain :: "amqp_Table option \<Rightarrow> time_Time \<Rightarrow> amqp_Delivery" where
  "delivery_plain tbl ts =
     \<lparr>Delivery_Headers = tbl, Delivery_Timestamp = ts, Delivery_Body = body_plain\<rparr>"

definition delivery_death :: "table_value \<Rightarrow> amqp_Delivery" where
  "delivery_death v = delivery_plain (Some [''x-death'' \<mapsto> v]) (Time (- 62135596800) 0)"

text \<open>A delivery of \<open>body_headers\<close> without attribute table and creation time.\<close>

definition delivery_headers :: amqp_Delivery where
  "delivery_headers =
     \<lparr>Delivery_Headers = None, Delivery_Timestamp = Time (- 62135596800) 0,
      Delivery_Body = body_headers\<rparr>"

section \<open>Reading a result\<close>

text \<open>
  The descriptor of a \<open>Parse\<close> that succeeded (returned a nil error), and \<open>None\<close>
  for one that returned an error or panicked.
\<close>

definition parsed ::
  "(go_error option \<times> HttpRequestMessage \<times> log_entry list) go_result \<Rightarrow> HttpRequestMessage option"
where
  "parsed r = (case r of Returns (None, m, lg) \<Rightarrow> Some m | _ \<Rightarrow> None)"

text \<open>
  The test of lines 108 and 109 on the \<open>message_id\<close> header: present, a string, and
  not empty.
\<close>

definition usable_message_id :: "amqp_Table \<Rightarrow> bool" where
  "usable_message_id h = (case h ''message_id'' of Some (FString s) \<Rightarrow> s \<noteq> [] | _ \<Rightarrow> False)"

section \<open>Parse: the steps\<close>

lemma find_snoc:
  "find P (xs @ [x]) =
     (case find P xs of None \<Rightarrow> (if P x then Some x else None) | Some y \<Rightarrow> Some y)"
  by (induction xs) simp_all

lemma flatten_Headers_find:
  "flatten_Headers acc hs k =
     (case find (\<lambda>h. h k \<noteq> None) (rev hs) of None \<Rightarrow> acc k | Some h \<Rightarrow> h k)"
proof (induction hs arbitrary: acc)
  case Nil
  show ?case by simp
next
  case (Cons h hs)
  show ?case
    by (cases "find (\<lambda>h. h k \<noteq> None) (rev hs)"; cases "h k")
       (simp_all add: Cons.IH find_snoc map_add_def)
qed

lemma getRetryInfo_absent:
  "h ''x-death'' = None \<Longrightarrow> getRetryInfo h = Returns (0, 0)"
  by (simp add: getRetryInfo_def)

lemma getRetryInfo_other_length:
  "h ''x-death'' = Some (FList es) \<Longrightarrow> length es \<noteq> 2 \<Longrightarrow> getRetryInfo h = Returns (0, 0)"
  by (simp add: getRetryInfo_def)

lemma getRetryInfo_two:
  "h ''x-death'' = Some (FList [e0, FTable t]) \<Longrightarrow>
   getRetryInfo h =
     (case (case t ''count'' of
              None \<Rightarrow> Returns 0
            | Some retries \<Rightarrow> (case retries of FInt64 n \<Rightarrow> Returns n | _ \<Rightarrow> Panic ''int64'')) of
        Panic p \<Rightarrow> Panic p
      | Returns retryCnt \<Rightarrow>
          (case t ''time'' of
             None \<Rightarrow> Returns (retryCnt, 0)
           | Some rejectTime \<Rightarrow>
               (case rejectTime of
                  FNil \<Rightarrow> Returns (retryCnt, 0)
                | FTime tm \<Rightarrow> Returns (retryCnt, Unix tm)
                | _ \<Rightarrow> Panic ''time.Time'')))"
  by (simp add: getRetryInfo_def)

lemma getRetryInfo_Returns_cases:
  assumes "getRetryInfo h = Returns r"
  shows "(h ''x-death'' = None \<and> r = (0, 0)) \<or>
         (\<exists>es. h ''x-death'' = Some (FList es) \<and> length es \<noteq> 2 \<and> r = (0, 0)) \<or>
         (\<exists>e0 t. h ''x-death'' = Some (FList [e0, FTable t]) \<and>
            fst r = (case t ''count'' of Some (FInt64 c) \<Rightarrow> c | _ \<Rightarrow> 0) \<and>
            snd r = (case t ''time'' of Some (FTime tm) \<Rightarrow> Unix tm | _ \<Rightarrow> 0))"
proof (cases "h ''x-death''")
  case None
  with assms show ?thesis by (simp add: getRetryInfo_absent)
next
  case (Some v)
  show ?thesis
  proof (cases v)
    case (FList es)
    show ?thesis
    proof (cases "length es = 2")
      case False
      with assms Some FList show ?thesis by (simp add: getRetryInfo_other_length)
    next
      case True
      then obtain e0 e1 where es: "es = [e0, e1]"
        by (cases es; cases "tl es") auto
      show ?thesis
      proof (cases e1)
        case (FTable t)
        from assms getRetryInfo_two [of h e0 t] Some FList es FTable
        show ?thesis
          by (auto split: option.splits table_value.splits go_result.splits)
      qed (use assms Some FList es in \<open>simp_all add: getRetryInfo_def\<close>)
    qed
  qed (use assms Some in \<open>simp_all add: getRetryInfo_def\<close>)
qed

lemma parse_fields_simps:
  "MessageId (parse_fields f d m) = MessageId m"
  "RetryCnt (parse_fields f d m) = RetryCnt m"
  "FirstRejectionTime (parse_fields f d m) = FirstRejectionTime m"
  "Headers (parse_fields f d m) = flatten_Headers Map.empty (Fields_Headers f)"
  "Timestamp (parse_fields f d m) =
     (if IsZero (Delivery_Timestamp d) then Timestamp m else Unix (Delivery_Timestamp d))"
  by (simp_all add: parse_fields_def Let_def)

lemma parse_expiration_simps:
  "MessageId (fst (parse_expiration now h s)) = MessageId (fst s)"
  "Headers (fst (parse_expiration now h s)) = Headers (fst s)"
  "Timestamp (fst (parse_expiration now h s)) = Timestamp (fst s)"
proof -
  define past where "past x \<longleftrightarrow> sint x < sint now" for x :: int64
  have "parse_expiration now h s =
      (case h ''expiration'' of
        None \<Rightarrow> s
      | Some expirationHdr \<Rightarrow>
          (case expirationHdr of
             FInt64 expiration \<Rightarrow>
               if past expiration
               then (fst s, snd s @ [Write ''Header value 'expiration' is invalid, or the expiration time has already past. Default TTL will be used.''])
               else ((fst s)\<lparr>Expiration := expiration\<rparr>, snd s)
           | _ \<Rightarrow> (fst s, snd s @ [Write ''Header value 'expiration' is invalid, or the expiration time has already past. Default TTL will be used.''])))"
    unfolding parse_expiration_def past_def by (rule refl)
  then show "MessageId (fst (parse_expiration now h s)) = MessageId (fst s)"
    "Headers (fst (parse_expiration now h s)) = Headers (fst s)"
    "Timestamp (fst (parse_expiration now h s)) = Timestamp (fst s)"
    by (simp_all split: option.splits table_value.splits)
qed

lemma parse_message_id_simps:
  "Headers (fst (parse_message_id md5 body h s)) = Headers (fst s)"
  "Timestamp (fst (parse_message_id md5 body h s)) = Timestamp (fst s)"
  "MessageId (fst (parse_message_id md5 body h s)) =
     (let given = (case h ''message_id'' of
                     Some (FString messageId) \<Rightarrow>
                       if messageId = [] then MessageId (fst s) else messageId
                   | _ \<Rightarrow> MessageId (fst s))
      in if given = []
         then Sprintf_x (md5 body) @
              (if 0 < sint (Timestamp (fst s))
               then ''-'' @ Sprintf_d (sint (Timestamp (fst s))) else [])
         else given)"
proof -
  define pos where "pos \<longleftrightarrow> 0 < sint (Timestamp (fst s))"
  define sfx where "sfx = ''-'' @ Sprintf_d (sint (Timestamp (fst s)))"
  define s1 where "s1 =
        (case h ''message_id'' of
           None \<Rightarrow> s
         | Some messageIdHdr \<Rightarrow>
             (case messageIdHdr of
                FString messageId \<Rightarrow>
                  if length messageId = 0
                  then (fst s, snd s @ [Write ''Header value 'message_id' is invalid or empty. The Message ID will be the md5 hash of the RabbitMQ message body.''])
                  else ((fst s)\<lparr>MessageId := messageId\<rparr>, snd s)
              | _ \<Rightarrow> (fst s, snd s @ [Write ''Header value 'message_id' is invalid or empty. The Message ID will be the md5 hash of the RabbitMQ message body.''])))"
  have s1: "Headers (fst s1) = Headers (fst s)" "Timestamp (fst s1) = Timestamp (fst s)"
    "MessageId (fst s1) =
       (case h ''message_id'' of
          Some (FString messageId) \<Rightarrow> if messageId = [] then MessageId (fst s) else messageId
        | _ \<Rightarrow> MessageId (fst s))"
    by (simp_all add: s1_def split: option.splits table_value.splits)
  have unfold: "parse_message_id md5 body h s =
      (if MessageId (fst s1) = []
       then (if pos
             then ((fst s1)\<lparr>MessageId := Sprintf_x (md5 body) @ sfx\<rparr>, snd s1)
             else ((fst s1)\<lparr>MessageId := Sprintf_x (md5 body)\<rparr>, snd s1))
       else s1)"
    unfolding parse_message_id_def s1_def [symmetric] Let_def pos_def sfx_def
    by (simp add: s1(2))
  show "Headers (fst (parse_message_id md5 body h s)) = Headers (fst s)"
    unfolding unfold by (simp add: s1)
  show "Timestamp (fst (parse_message_id md5 body h s)) = Timestamp (fst s)"
    unfolding unfold by (simp add: s1)
  show "MessageId (fst (parse_message_id md5 body h s)) =
     (let given = (case h ''message_id'' of
                     Some (FString messageId) \<Rightarrow>
                       if messageId = [] then MessageId (fst s) else messageId
                   | _ \<Rightarrow> MessageId (fst s))
      in if given = []
         then Sprintf_x (md5 body) @
              (if 0 < sint (Timestamp (fst s))
               then ''-'' @ Sprintf_d (sint (Timestamp (fst s))) else [])
         else given)"
    unfolding unfold Let_def s1(3) [symmetric] pos_def [symmetric] sfx_def [symmetric]
    by simp
qed

section \<open>Parse: the result\<close>

lemma Parse_no_table:
  assumes "json_Unmarshal env (Delivery_Body d) = Inr f" and "Fields_Url f \<noteq> []"
      and "Delivery_Headers d = None"
  shows "parsed (Parse env msg d lg) = Some (parse_fields f d (msg\<lparr>Delivery := d\<rparr>))"
  using assms by (simp add: Parse_def Let_def parse_finish_def parsed_def)

lemma Parse_table:
  assumes "json_Unmarshal env (Delivery_Body d) = Inr f" and "Fields_Url f \<noteq> []"
      and "Delivery_Headers d = Some h" and "getRetryInfo h = Returns r"
  shows "parsed (Parse env msg d lg) =
     Some ((fst (parse_message_id (md5_Sum env) (Delivery_Body d) h
                  (parse_expiration (time_Now_Unix env) h
                     (parse_fields f d (msg\<lparr>Delivery := d\<rparr>), lg))))
           \<lparr>RetryCnt := fst r, FirstRejectionTime := snd r\<rparr>)"
  using assms by (simp add: Parse_def Let_def parse_finish_def parsed_def)

lemma Parse_table_panic:
  assumes "json_Unmarshal env (Delivery_Body d) = Inr f" and "Fields_Url f \<noteq> []"
      and "Delivery_Headers d = Some h" and "getRetryInfo h = Panic p"
  shows "Parse env msg d lg = Panic p"
  using assms by (simp add: Parse_def Let_def)

lemma parsed_Parse_cases:
  assumes "parsed (Parse env msg d lg) = Some m"
  obtains (no_table) f where
      "json_Unmarshal env (Delivery_Body d) = Inr f" "Fields_Url f \<noteq> []"
      "Delivery_Headers d = None" "m = parse_fields f d (msg\<lparr>Delivery := d\<rparr>)"
  | (table) f h r where
      "json_Unmarshal env (Delivery_Body d) = Inr f" "Fields_Url f \<noteq> []"
      "Delivery_Headers d = Some h" "getRetryInfo h = Returns r"
      "m = (fst (parse_message_id (md5_Sum env) (Delivery_Body d) h
                  (parse_expiration (time_Now_Unix env) h
                     (parse_fields f d (msg\<lparr>Delivery := d\<rparr>), lg))))
           \<lparr>RetryCnt := fst r, FirstRejectionTime := snd r\<rparr>"
proof (cases "json_Unmarshal env (Delivery_Body d)")
  case (Inl err)
  with assms show ?thesis by (simp add: Parse_def Let_def parsed_def)
next
  case (Inr f)
  show ?thesis
  proof (cases "Fields_Url f = []")
    case True
    with assms Inr show ?thesis by (simp add: Parse_def Let_def parsed_def)
  next
    case url: False
    show ?thesis
    proof (cases "Delivery_Headers d")
      case None
      from assms Parse_no_table [OF Inr url None, of msg lg] no_table [OF Inr url None]
      show ?thesis by simp
    next
      case (Some h)
      show ?thesis
      proof (cases "getRetryInfo h")
        case (Panic p)
        from assms Parse_table_panic [OF Inr url Some Panic, of msg lg]
        show ?thesis by (simp add: parsed_def)
      next
        case (Returns r)
        from assms Parse_table [OF Inr url Some Returns, of msg lg] table [OF Inr url Some Returns]
        show ?thesis by simp
      qed
    qed
  qed
qed

lemma length_Sprintf_x: "length (Sprintf_x w) = 32"
  by (simp add: Sprintf_x_def)

lemma find_append:
  "find P (xs @ ys) = (case find P xs of None \<Rightarrow> find P ys | Some x \<Rightarrow> Some x)"
  by (induction xs) simp_all

lemmas sample_parse_defs =
  Parse_def parse_fields_def parse_finish_def parse_message_id_def parse_expiration_def
  getRetryInfo_def parsed_def sample_env_def sample_Unmarshal_def sample_md5_def
  body_plain_def body_headers_def delivery_plain_def delivery_death_def delivery_headers_def
  IsZero_def zero_Message_def zero_Delivery_def Let_def

lemmas sample_format_defs =
  Sprintf_x_def hex_digit_def upt_rec Sprintf_d_def Sprintf_nat.simps

section \<open>Parse: the claims\<close>

text \<open>
  C8. \<open>Parse\<close> flattens the decoded \<open>headers\<close> sequence into one map, going through
  the sequence in order and storing every entry, so that a key has the value of its
  last occurrence in the sequence: for every key \<open>k\<close>, \<open>Headers\<close> at \<open>k\<close> is what
  the last map of the sequence that has \<open>k\<close> gives it, and nothing when no map has
  it. On the sequence \<open>[{"A":"1"},{"A":"2"}]\<close> the map has \<open>A = "2"\<close>.
\<close>

theorem Parse_flattens_headers_last_wins:
  assumes "parsed (Parse env msg d lg) = Some m"
      and "json_Unmarshal env (Delivery_Body d) = Inr f"
  shows "Headers m = flatten_Headers Map.empty (Fields_Headers f) \<and>
     Headers m k =
       (case find (\<lambda>h. h k \<noteq> None) (rev (Fields_Headers f)) of
          None \<Rightarrow> None
        | Some h \<Rightarrow> h k) \<and>
     (\<forall>pre h post v. Fields_Headers f = pre @ h # post \<longrightarrow> h k = Some v \<longrightarrow>
        (\<forall>h' \<in> set post. h' k = None) \<longrightarrow> Headers m k = Some v)"
proof -
  have hd: "Headers m = flatten_Headers Map.empty (Fields_Headers f)"
    using assms(1)
  proof (cases rule: parsed_Parse_cases)
    case (no_table f')
    with assms(2) show ?thesis by (simp add: parse_fields_simps)
  next
    case (table f' h r)
    with assms(2) show ?thesis
      by (simp add: parse_fields_simps parse_expiration_simps parse_message_id_simps)
  qed
  have fnd: "Headers m k =
       (case find (\<lambda>h. h k \<noteq> None) (rev (Fields_Headers f)) of
          None \<Rightarrow> None
        | Some h \<Rightarrow> h k)"
    unfolding hd by (simp add: flatten_Headers_find)
  have "Headers m k = Some v"
    if "Fields_Headers f = pre @ h # post" "h k = Some v" "\<forall>h' \<in> set post. h' k = None"
    for pre h post v
  proof -
    have "find (\<lambda>h. h k \<noteq> None) (rev post) = None"
      using that(3) by (simp add: find_None_iff)
    then have "find (\<lambda>h. h k \<noteq> None) (rev (Fields_Headers f)) = Some h"
      using that(1,2) by (simp add: find_append)
    with fnd that(2) show ?thesis by simp
  qed
  with hd fnd show ?thesis by blast
qed

theorem Parse_flattens_headers_last_wins_witness:
  "\<exists>m. parsed (Parse sample_env zero_Message delivery_headers []) = Some m \<and>
       Headers m ''A'' = Some ''2''"
proof -
  obtain m where p: "parsed (Parse sample_env zero_Message delivery_headers []) = Some m"
    by (simp add: sample_parse_defs)
  have u: "json_Unmarshal sample_env (Delivery_Body delivery_headers) =
      Inr \<lparr>Fields_Url = ''http://x/y'',
           Fields_Headers = [[''A'' \<mapsto> ''1''], [''A'' \<mapsto> ''2'']],
           Fields_Body = ''payload''\<rparr>"
    by (simp add: sample_parse_defs)
  from Parse_flattens_headers_last_wins [OF p u, of "''A''"]
  have "Headers m ''A'' = Some ''2''" by simp
  with p show ?thesis by blast
qed

text \<open>
  C5. When the \<open>x-death\<close> attribute is a list of exactly two entries, \<open>Parse\<close> reads
  the second one: its \<open>count\<close> becomes \<open>RetryCnt\<close> and its \<open>time\<close>, in Unix
  seconds, becomes \<open>FirstRejectionTime\<close>; a \<open>time\<close> that is present but nil gives
  \<open>FirstRejectionTime = 0\<close>. (The entry is an \<open>amqp.Table\<close>, the count an
  \<open>int64\<close> and the time a \<open>time.Time\<close> or nil: the values the claim speaks of.)
\<close>

theorem Parse_reads_second_death_entry:
  assumes "json_Unmarshal env (Delivery_Body d) = Inr f" and "Fields_Url f \<noteq> []"
      and "Delivery_Headers d = Some h"
      and "h ''x-death'' = Some (FList [e0, FTable t])"
      and "t ''count'' = Some (FInt64 c)"
      and "t ''time'' = Some tv" and "tv = FNil \<or> (\<exists>tm. tv = FTime tm)"
  shows "\<exists>m. parsed (Parse env msg d lg) = Some m \<and> RetryCnt m = c \<and>
     FirstRejectionTime m = (case tv of FTime tm \<Rightarrow> Unix tm | _ \<Rightarrow> 0)"
proof -
  have r: "getRetryInfo h = Returns (c, case tv of FTime tm \<Rightarrow> Unix tm | _ \<Rightarrow> 0)"
    using getRetryInfo_two [of h e0 t] assms(4,5,6,7) by auto
  show ?thesis
    unfolding Parse_table [OF assms(1,2,3) r] by simp
qed

theorem Parse_reads_second_death_entry_witness:
  "map_option RetryCnt (parsed (Parse sample_env zero_Message
     (delivery_death (FList [FTable Map.empty,
        FTable [''count'' \<mapsto> FInt64 3, ''time'' \<mapsto> FTime (Time 1600000000 0)]])) [])) = Some 3 \<and>
   map_option FirstRejectionTime (parsed (Parse sample_env zero_Message
     (delivery_death (FList [FTable Map.empty,
        FTable [''count'' \<mapsto> FInt64 3, ''time'' \<mapsto> FTime (Time 1600000000 0)]])) [])) =
     Some 1600000000 \<and>
   map_option RetryCnt (parsed (Parse sample_env zero_Message
     (delivery_death (FList [FTable Map.empty,
        FTable [''count'' \<mapsto> FInt64 2, ''time'' \<mapsto> FNil]])) [])) = Some 2 \<and>
   map_option FirstRejectionTime (parsed (Parse sample_env zero_Message
     (delivery_death (FList [FTable Map.empty,
        FTable [''count'' \<mapsto> FInt64 2, ''time'' \<mapsto> FNil]])) [])) = Some 0"
proof -
  let ?f = "\<lparr>Fields_Url = ''http://x/y'', Fields_Headers = [], Fields_Body = []\<rparr>"
  let ?t = "[''count'' \<mapsto> FInt64 3, ''time'' \<mapsto> FTime (Time 1600000000 0)]"
  let ?v = "FList [FTable Map.empty, FTable ?t]"
  let ?h = "[''x-death'' \<mapsto> ?v]"
  have a: "json_Unmarshal sample_env (Delivery_Body (delivery_death ?v)) = Inr ?f"
      "Fields_Url ?f \<noteq> []"
      "Delivery_Headers (delivery_death ?v) = Some ?h"
      "?h ''x-death'' = Some (FList [FTable Map.empty, FTable ?t])"
      "?t ''count'' = Some (FInt64 3)"
      "?t ''time'' = Some (FTime (Time 1600000000 0))"
      "FTime (Time 1600000000 0) = FNil \<or> (\<exists>tm. FTime (Time 1600000000 0) = FTime tm)"
    by (simp_all add: sample_env_def sample_Unmarshal_def delivery_death_def delivery_plain_def)
  let ?t' = "[''count'' \<mapsto> FInt64 2, ''time'' \<mapsto> FNil]"
  let ?v' = "FList [FTable Map.empty, FTable ?t']"
  let ?h' = "[''x-death'' \<mapsto> ?v']"
  have b: "json_Unmarshal sample_env (Delivery_Body (delivery_death ?v')) = Inr ?f"
      "Fields_Url ?f \<noteq> []"
      "Delivery_Headers (delivery_death ?v') = Some ?h'"
      "?h' ''x-death'' = Some (FList [FTable Map.empty, FTable ?t'])"
      "?t' ''count'' = Some (FInt64 2)"
      "?t' ''time'' = Some FNil"
      "FNil = FNil \<or> (\<exists>tm. FNil = FTime tm)"
    by (simp_all add: sample_env_def sample_Unmarshal_def delivery_death_def delivery_plain_def)
  from Parse_reads_second_death_entry [OF a, of zero_Message "[]"]
    Parse_reads_second_death_entry [OF b, of zero_Message "[]"]
  show ?thesis by auto
qed

text \<open>
  C4, as stated, fails: an \<open>x-death\<close> attribute that is not a list makes \<open>Parse\<close>
  panic, and a two-entry list whose first entry has the wrong type is read all the
  same (the first entry is never looked at).
\<close>

theorem Parse_death_wrong_type_counterexample:
  "Parse sample_env zero_Message (delivery_death (FString ''x'')) [] = Panic ''[]interface {}'' \<and>
   map_option RetryCnt (parsed (Parse sample_env zero_Message
     (delivery_death (FList [FString ''junk'',
        FTable [''count'' \<mapsto> FInt64 3, ''time'' \<mapsto> FTime (Time 1600000000 0)]])) [])) = Some 3"
  by (simp add: sample_parse_defs)

text \<open>
  C4, amended. When the \<open>x-death\<close> attribute is absent (no attribute table, or a
  table without it) or is a list whose length is not two (0, 1, 3 or more entries, of
  any types), \<open>Parse\<close> of a descriptor with no retry history yet succeeds and leaves
  \<open>RetryCnt\<close> and \<open>FirstRejectionTime\<close> at 0.
\<close>

theorem Parse_death_absent_or_other_length:
  assumes "json_Unmarshal env (Delivery_Body d) = Inr f" and "Fields_Url f \<noteq> []"
      and "RetryCnt msg = 0" and "FirstRejectionTime msg = 0"
      and "\<forall>h. Delivery_Headers d = Some h \<longrightarrow>
             h ''x-death'' = None \<or> (\<exists>es. h ''x-death'' = Some (FList es) \<and> length es \<noteq> 2)"
  shows "\<exists>m. parsed (Parse env msg d lg) = Some m \<and> RetryCnt m = 0 \<and> FirstRejectionTime m = 0"
proof (cases "Delivery_Headers d")
  case None
  show ?thesis
    unfolding Parse_no_table [OF assms(1,2) None]
    by (simp add: parse_fields_simps assms(3,4))
next
  case (Some h)
  with assms(5) have "getRetryInfo h = Returns (0, 0)"
    by (auto simp: getRetryInfo_absent getRetryInfo_other_length)
  from Parse_table [OF assms(1,2) Some this] show ?thesis by simp
qed

theorem Parse_death_absent_or_other_length_witness:
  "map_option RetryCnt (parsed (Parse sample_env zero_Message
     (delivery_death (FList [FTable [''count'' \<mapsto> FInt64 3]])) [])) = Some 0 \<and>
   map_option FirstRejectionTime (parsed (Parse sample_env zero_Message
     (delivery_death (FList [FTable [''count'' \<mapsto> FInt64 3]])) [])) = Some 0 \<and>
   map_option RetryCnt (parsed (Parse sample_env zero_Message
     (delivery_death (FList [FNil, FString ''b'', FNil])) [])) = Some 0 \<and>
   map_option RetryCnt (parsed (Parse sample_env zero_Message
     (delivery_plain None (Time 1650000000 0)) [])) = Some 0"
proof -
  let ?f = "\<lparr>Fields_Url = ''http://x/y'', Fields_Headers = [], Fields_Body = []\<rparr>"
  have z: "RetryCnt zero_Message = 0" "FirstRejectionTime zero_Message = 0"
    by (simp_all add: zero_Message_def)
  have u: "Fields_Url ?f \<noteq> []" by simp
  let ?d1 = "delivery_death (FList [FTable [''count'' \<mapsto> FInt64 3]])"
  have j1: "json_Unmarshal sample_env (Delivery_Body ?d1) = Inr ?f"
    by (simp add: sample_env_def sample_Unmarshal_def delivery_death_def delivery_plain_def)
  have s1: "\<forall>h. Delivery_Headers ?d1 = Some h \<longrightarrow>
      h ''x-death'' = None \<or> (\<exists>es. h ''x-death'' = Some (FList es) \<and> length es \<noteq> 2)"
    by (auto simp: delivery_death_def delivery_plain_def)
  let ?d3 = "delivery_death (FList [FNil, FString ''b'', FNil])"
  have j3: "json_Unmarshal sample_env (Delivery_Body ?d3) = Inr ?f"
    by (simp add: sample_env_def sample_Unmarshal_def delivery_death_def delivery_plain_def)
  have s3: "\<forall>h. Delivery_Headers ?d3 = Some h \<longrightarrow>
      h ''x-death'' = None \<or> (\<exists>es. h ''x-death'' = Some (FList es) \<and> length es \<noteq> 2)"
    by (auto simp: delivery_death_def delivery_plain_def)
  let ?d0 = "delivery_plain None (Time 1650000000 0)"
  have j0: "json_Unmarshal sample_env (Delivery_Body ?d0) = Inr ?f"
    by (simp add: sample_env_def sample_Unmarshal_def delivery_plain_def)
  have s0: "\<forall>h. Delivery_Headers ?d0 = Some h \<longrightarrow>
      h ''x-death'' = None \<or> (\<exists>es. h ''x-death'' = Some (FList es) \<and> length es \<noteq> 2)"
    by (simp add: delivery_plain_def)
  from Parse_death_absent_or_other_length [OF j1 u z s1, of "[]"]
    Parse_death_absent_or_other_length [OF j3 u z s3, of "[]"]
    Parse_death_absent_or_other_length [OF j0 u z s0, of "[]"]
  show ?thesis by auto
qed

text \<open>
  C6, as stated, fails: with a second entry that has a \<open>count\<close> and no \<open>time\<close>,
  \<open>RetryCnt\<close> is read from the history while \<open>FirstRejectionTime\<close> stays at its
  default.
\<close>

theorem Parse_retry_fields_partial_counterexample:
  "map_option RetryCnt (parsed (Parse sample_env zero_Message
     (delivery_death (FList [FTable Map.empty, FTable [''count'' \<mapsto> FInt64 3]])) [])) = Some 3 \<and>
   map_option FirstRejectionTime (parsed (Parse sample_env zero_Message
     (delivery_death (FList [FTable Map.empty, FTable [''count'' \<mapsto> FInt64 3]])) [])) = Some 0"
  by (simp add: sample_parse_defs)

text \<open>
  C6, amended. After a successful \<open>Parse\<close> of a descriptor with no retry history
  yet, the two fields are read from the second entry of a two-entry \<open>x-death\<close> list
  each on its own: \<open>RetryCnt\<close> is its \<open>count\<close> when it has one and 0 otherwise,
  \<open>FirstRejectionTime\<close> is its \<open>time\<close> in Unix seconds when it has one that is
  not nil and 0 otherwise. Without such a list both are 0.
\<close>

theorem Parse_retry_fields_independent:
  assumes "parsed (Parse env msg d lg) = Some m"
      and "RetryCnt msg = 0" and "FirstRejectionTime msg = 0"
  shows "(\<forall>h e0 t. Delivery_Headers d = Some h \<longrightarrow> h ''x-death'' = Some (FList [e0, FTable t]) \<longrightarrow>
            RetryCnt m = (case t ''count'' of Some (FInt64 c) \<Rightarrow> c | _ \<Rightarrow> 0) \<and>
            FirstRejectionTime m = (case t ''time'' of Some (FTime tm) \<Rightarrow> Unix tm | _ \<Rightarrow> 0)) \<and>
         ((\<forall>h e0 t. Delivery_Headers d = Some h \<longrightarrow> h ''x-death'' \<noteq> Some (FList [e0, FTable t])) \<longrightarrow>
            RetryCnt m = 0 \<and> FirstRejectionTime m = 0)"
  using assms(1)
proof (cases rule: parsed_Parse_cases)
  case (no_table f)
  then show ?thesis by (simp add: parse_fields_simps assms(2,3))
next
  case (table f h r)
  have m: "RetryCnt m = fst r" "FirstRejectionTime m = snd r"
    by (simp_all add: table(5))
  from getRetryInfo_Returns_cases [OF table(4)] show ?thesis
    unfolding m using table(3) by auto
qed

theorem Parse_retry_fields_independent_witness:
  "map_option RetryCnt (parsed (Parse sample_env zero_Message
     (delivery_death (FList [FTable Map.empty,
        FTable [''time'' \<mapsto> FTime (Time 1600000000 0)]])) [])) = Some 0 \<and>
   map_option FirstRejectionTime (parsed (Parse sample_env zero_Message
     (delivery_death (FList [FTable Map.empty,
        FTable [''time'' \<mapsto> FTime (Time 1600000000 0)]])) [])) = Some 1600000000"
proof -
  let ?t = "[''time'' \<mapsto> FTime (Time 1600000000 0)]"
  let ?d = "delivery_death (FList [FTable Map.empty, FTable ?t])"
  obtain m where p: "parsed (Parse sample_env zero_Message ?d []) = Some m"
    by (simp add: sample_parse_defs)
  have z: "RetryCnt zero_Message = 0" "FirstRejectionTime zero_Message = 0"
    by (simp_all add: zero_Message_def)
  have h: "Delivery_Headers ?d = Some [''x-death'' \<mapsto> FList [FTable Map.empty, FTable ?t]]"
    "[''x-death'' \<mapsto> FList [FTable Map.empty, FTable ?t]] ''x-death'' =
       Some (FList [FTable Map.empty, FTable ?t])"
    by (simp_all add: delivery_death_def delivery_plain_def)
  from Parse_retry_fields_independent [OF p z] h
  have "RetryCnt m = (case ?t ''count'' of Some (FInt64 c) \<Rightarrow> c | _ \<Rightarrow> 0) \<and>
        FirstRejectionTime m = (case ?t ''time'' of Some (FTime tm) \<Rightarrow> Unix tm | _ \<Rightarrow> 0)"
    by blast
  then have "RetryCnt m = 0 \<and> FirstRejectionTime m = 1600000000" by simp
  with p show ?thesis by simp
qed

lemma Parse_table_MessageId:
  assumes "parsed (Parse env msg d lg) = Some m"
      and "Delivery_Headers d = Some h"
      and "MessageId msg = []"
  shows "MessageId m =
     (let given = (case h ''message_id'' of Some (FString s) \<Rightarrow> s | _ \<Rightarrow> [])
      in if given = []
         then Sprintf_x (md5_Sum env (Delivery_Body d)) @
              (if 0 < sint (Timestamp m) then ''-'' @ Sprintf_d (sint (Timestamp m)) else [])
         else given)"
  using assms(1)
proof (cases rule: parsed_Parse_cases)
  case (no_table f)
  with assms(2) show ?thesis by simp
next
  case (table f h' r)
  with assms(2) have h': "h' = h" by simp
  define s0 where "s0 = parse_expiration (time_Now_Unix env) h
                          (parse_fields f d (msg\<lparr>Delivery := d\<rparr>), lg)"
  define ts where "ts = Timestamp (fst s0)"
  define sfx where "sfx = (if 0 < sint ts then ''-'' @ Sprintf_d (sint ts) else [])"
  define dg where "dg = Sprintf_x (md5_Sum env (Delivery_Body d))"
  have s0: "MessageId (fst s0) = []"
    by (simp add: s0_def parse_expiration_simps parse_fields_simps assms(3))
  have tm: "Timestamp m = ts"
    by (simp add: table(5) h' parse_message_id_simps s0_def [symmetric] ts_def)
  have id: "MessageId m =
      (let given = (case h ''message_id'' of
                      Some (FString messageId) \<Rightarrow> if messageId = [] then [] else messageId
                    | _ \<Rightarrow> [])
       in if given = [] then dg @ sfx else given)"
    unfolding sfx_def dg_def ts_def
    by (simp add: table(5) h' parse_message_id_simps(3) s0_def [symmetric] s0 Let_def
        split: option.splits table_value.splits)
  show ?thesis
    unfolding tm sfx_def [symmetric] dg_def [symmetric] id
    by (simp add: Let_def split: option.splits table_value.splits)
qed

text \<open>
  C3, as stated, fails: without an attribute table \<open>Parse\<close> succeeds and leaves
  \<open>MessageId\<close> empty, and with a creation time before 1970 (a negative, so
  non-zero, \<open>Timestamp\<close>) no suffix is appended to the digest.
\<close>

theorem Parse_MessageId_counterexample:
  "map_option MessageId (parsed (Parse sample_env zero_Message
     (delivery_plain None (Time 1650000000 0)) [])) = Some [] \<and>
   map_option Timestamp (parsed (Parse sample_env zero_Message
     (delivery_plain (Some Map.empty) (Time (- 1) 0)) [])) = Some (- 1) \<and>
   map_option MessageId (parsed (Parse sample_env zero_Message
     (delivery_plain (Some Map.empty) (Time (- 1) 0)) [])) =
     Some ''eca007c3de688c5e6bd9ff8251dbbcbc''"
  by (simp add: sample_parse_defs sample_format_defs)

text \<open>
  C3, amended. For every envelope that carries an attribute table and on which
  \<open>Parse\<close> of a new descriptor succeeds, \<open>MessageId\<close> is not empty: it is the
  \<open>message_id\<close> attribute when that is a non-empty string, and otherwise (absent,
  empty or not a string) the MD5 hex digest of the raw body, with \<open>-\<close> and the
  creation time appended when the creation time is positive.
\<close>

theorem Parse_MessageId_nonempty:
  assumes "parsed (Parse env msg d lg) = Some m"
      and "Delivery_Headers d = Some h"
      and "MessageId msg = []"
  shows "MessageId m \<noteq> [] \<and>
     (\<forall>s. h ''message_id'' = Some (FString s) \<longrightarrow> s \<noteq> [] \<longrightarrow> MessageId m = s) \<and>
     (\<not> usable_message_id h \<longrightarrow>
        MessageId m =
          Sprintf_x (md5_Sum env (Delivery_Body d)) @
          (if 0 < sint (Timestamp m) then ''-'' @ Sprintf_d (sint (Timestamp m)) else []))"
proof -
  define sfx where
    "sfx = (if 0 < sint (Timestamp m) then ''-'' @ Sprintf_d (sint (Timestamp m)) else [])"
  define dg where "dg = Sprintf_x (md5_Sum env (Delivery_Body d))"
  have dg: "dg \<noteq> []"
    using length_Sprintf_x [of "md5_Sum env (Delivery_Body d)"] by (auto simp: dg_def)
  have id: "MessageId m =
     (let given = (case h ''message_id'' of Some (FString s) \<Rightarrow> s | _ \<Rightarrow> [])
      in if given = [] then dg @ sfx else given)"
    using Parse_table_MessageId [OF assms] unfolding sfx_def dg_def .
  show ?thesis
    unfolding sfx_def [symmetric] dg_def [symmetric] id
    using dg
    by (auto simp: usable_message_id_def Let_def split: option.splits table_value.splits)
qed

theorem Parse_MessageId_nonempty_witness:
  "map_option MessageId (parsed (Parse sample_env zero_Message
     (delivery_plain (Some [''message_id'' \<mapsto> FInt64 7]) (Time 1650000000 0)) [])) =
     Some ''eca007c3de688c5e6bd9ff8251dbbcbc-1650000000''"
proof -
  let ?h = "[''message_id'' \<mapsto> FInt64 7]"
  let ?d = "delivery_plain (Some ?h) (Time 1650000000 0)"
  obtain m where p: "parsed (Parse sample_env zero_Message ?d []) = Some m"
    and t: "Timestamp m = 1650000000"
    by (simp add: sample_parse_defs)
  have a: "Delivery_Headers ?d = Some ?h" "MessageId zero_Message = []"
    "\<not> usable_message_id ?h"
    by (simp_all add: delivery_plain_def zero_Message_def usable_message_id_def)
  from Parse_MessageId_nonempty [OF p a(1,2)] a(3)
  have "MessageId m =
          Sprintf_x (md5_Sum sample_env (Delivery_Body ?d)) @
          (if 0 < sint (Timestamp m) then ''-'' @ Sprintf_d (sint (Timestamp m)) else [])"
    by blast
  then have "MessageId m = ''eca007c3de688c5e6bd9ff8251dbbcbc-1650000000''"
    unfolding t
    by (simp add: sample_env_def sample_md5_def delivery_plain_def body_plain_def
        sample_format_defs)
  with p show ?thesis by simp
qed

text \<open>
  C7, as stated, fails: two envelopes with the same body and creation time and
  different \<open>message_id\<close> attributes get different \<open>MessageId\<close>s; so do one without
  an attribute table and one with an empty table; and an envelope with a non-empty
  \<open>url\<close> whose \<open>x-death\<close> attribute is not a list makes \<open>Parse\<close> panic.
\<close>

theorem Parse_MessageId_depends_on_table_counterexample:
  "map_option MessageId (parsed (Parse sample_env zero_Message
     (delivery_plain (Some [''message_id'' \<mapsto> FString ''a'']) (Time 1650000000 0)) [])) =
     Some ''a'' \<and>
   map_option MessageId (parsed (Parse sample_env zero_Message
     (delivery_plain (Some [''message_id'' \<mapsto> FString ''b'']) (Time 1650000000 0)) [])) =
     Some ''b'' \<and>
   map_option MessageId (parsed (Parse sample_env zero_Message
     (delivery_plain None (Time 1650000000 0)) [])) = Some [] \<and>
   map_option MessageId (parsed (Parse sample_env zero_Message
     (delivery_plain (Some Map.empty) (Time 1650000000 0)) [])) =
     Some ''eca007c3de688c5e6bd9ff8251dbbcbc-1650000000'' \<and>
   parsed (Parse sample_env zero_Message (delivery_death (FString ''x'')) []) = None"
  by (simp add: sample_parse_defs sample_format_defs)

text \<open>
  C7, amended. For two envelopes with the same raw body and creation time, both with
  a non-empty \<open>url\<close>, an attribute table that has no usable \<open>message_id\<close> (absent,
  empty or not a string) and an \<open>x-death\<close> attribute that \<open>getRetryInfo\<close> reads
  without a failed type assertion, \<open>Parse\<close> of a new descriptor succeeds on both,
  whenever it runs, and gives both the same \<open>MessageId\<close>: the digest of the body,
  with the creation time appended when it is positive.
\<close>

theorem Parse_MessageId_function_of_body_and_time:
  assumes "Delivery_Body d1 = Delivery_Body d2"
      and "Delivery_Timestamp d1 = Delivery_Timestamp d2"
      and "json_Unmarshal env (Delivery_Body d1) = Inr f" and "Fields_Url f \<noteq> []"
      and "Delivery_Headers d1 = Some h1" and "Delivery_Headers d2 = Some h2"
      and "\<not> usable_message_id h1" and "\<not> usable_message_id h2"
      and "getRetryInfo h1 = Returns r1" and "getRetryInfo h2 = Returns r2"
      and "MessageId msg1 = []" and "MessageId msg2 = []"
      and "Timestamp msg1 = 0" and "Timestamp msg2 = 0"
  shows "\<exists>m1 m2.
     parsed (Parse env msg1 d1 lg1) = Some m1 \<and>
     parsed (Parse (env\<lparr>time_Now_Unix := now2\<rparr>) msg2 d2 lg2) = Some m2 \<and>
     MessageId m1 = MessageId m2"
proof -
  let ?env2 = "env\<lparr>time_Now_Unix := now2\<rparr>"
  have j2: "json_Unmarshal ?env2 (Delivery_Body d2) = Inr f"
    using assms(1,3) by simp
  obtain m1 where p1: "parsed (Parse env msg1 d1 lg1) = Some m1"
    using Parse_table [OF assms(3,4,5,9)] by blast
  obtain m2 where p2: "parsed (Parse ?env2 msg2 d2 lg2) = Some m2"
    using Parse_table [OF j2 assms(4,6,10)] by blast
  have t1: "Timestamp m1 =
      (if IsZero (Delivery_Timestamp d1) then 0 else Unix (Delivery_Timestamp d1))"
    using p1 unfolding Parse_table [OF assms(3,4,5,9)]
    by (auto simp: parse_message_id_simps parse_expiration_simps parse_fields_simps assms(13))
  have t2: "Timestamp m2 =
      (if IsZero (Delivery_Timestamp d1) then 0 else Unix (Delivery_Timestamp d1))"
    using p2 unfolding Parse_table [OF j2 assms(4,6,10)]
    by (auto simp: parse_message_id_simps parse_expiration_simps parse_fields_simps assms(14)
        assms(2) [symmetric])
  from Parse_table_MessageId [OF p1 assms(5,11)] assms(7)
  have i1: "MessageId m1 =
          Sprintf_x (md5_Sum env (Delivery_Body d1)) @
          (if 0 < sint (Timestamp m1) then ''-'' @ Sprintf_d (sint (Timestamp m1)) else [])"
    by (auto simp: usable_message_id_def Let_def split: option.splits table_value.splits)
  from Parse_table_MessageId [OF p2 assms(6,12)] assms(8)
  have i2: "MessageId m2 =
          Sprintf_x (md5_Sum ?env2 (Delivery_Body d2)) @
          (if 0 < sint (Timestamp m2) then ''-'' @ Sprintf_d (sint (Timestamp m2)) else [])"
    by (auto simp: usable_message_id_def Let_def split: option.splits table_value.splits)
  have "MessageId m1 = MessageId m2"
    unfolding i1 i2 t1 t2 using assms(1) by simp
  with p1 p2 show ?thesis by blast
qed

theorem Parse_MessageId_function_of_body_and_time_witness:
  "map_option MessageId (parsed (Parse sample_env zero_Message
     (delivery_plain (Some Map.empty) (Time 1650000000 0)) [])) =
     Some ''eca007c3de688c5e6bd9ff8251dbbcbc-1650000000'' \<and>
   map_option MessageId (parsed (Parse (sample_env\<lparr>time_Now_Unix := 5\<rparr>) zero_Message
     (delivery_plain (Some [''message_id'' \<mapsto> FString [], ''x-death'' \<mapsto> FList []])
        (Time 1650000000 0)) [])) =
     Some ''eca007c3de688c5e6bd9ff8251dbbcbc-1650000000''"
proof -
  let ?f = "\<lparr>Fields_Url = ''http://x/y'', Fields_Headers = [], Fields_Body = []\<rparr>"
  let ?h2 = "[''message_id'' \<mapsto> FString [], ''x-death'' \<mapsto> FList []]"
  let ?d1 = "delivery_plain (Some Map.empty) (Time 1650000000 0)"
  let ?d2 = "delivery_plain (Some ?h2) (Time 1650000000 0)"
  have e1: "map_option MessageId (parsed (Parse sample_env zero_Message ?d1 [])) =
      Some ''eca007c3de688c5e6bd9ff8251dbbcbc-1650000000''"
    by (simp add: sample_parse_defs sample_format_defs)
  have a: "Delivery_Body ?d1 = Delivery_Body ?d2"
      "Delivery_Timestamp ?d1 = Delivery_Timestamp ?d2"
      "json_Unmarshal sample_env (Delivery_Body ?d1) = Inr ?f"
      "Fields_Url ?f \<noteq> []"
      "Delivery_Headers ?d1 = Some Map.empty"
      "Delivery_Headers ?d2 = Some ?h2"
      "\<not> usable_message_id Map.empty"
      "\<not> usable_message_id ?h2"
      "getRetryInfo Map.empty = Returns (0, 0)"
      "getRetryInfo ?h2 = Returns (0, 0)"
      "MessageId zero_Message = []" "MessageId zero_Message = []"
      "Timestamp zero_Message = 0" "Timestamp zero_Message = 0"
    by (simp_all add: delivery_plain_def sample_env_def sample_Unmarshal_def
        usable_message_id_def getRetryInfo_def zero_Message_def)
  from Parse_MessageId_function_of_body_and_time [OF a, of "[]" 5 "[]"]
  obtain m1 m2 where "parsed (Parse sample_env zero_Message ?d1 []) = Some m1"
    and p2: "parsed (Parse (sample_env\<lparr>time_Now_Unix := 5\<rparr>) zero_Message ?d2 []) = Some m2"
    and "MessageId m1 = MessageId m2"
    by blast
  with e1 have "MessageId m2 = ''eca007c3de688c5e6bd9ff8251dbbcbc-1650000000''" by simp
  with p2 e1 show ?thesis by simp
qed

section \<open>HttpPost: the paths and the record sent\<close>

lemma HttpPost_construction:
  assumes "http_NewRequest net ''POST'' (Url msg) (Body msg) = Inl err"
  shows "HttpPost net msg ackCh timeout =
     ackCh @ [msg\<lparr>HttpErr := Some err,
                   HttpStatusMsg := ''Invalid http request: '' @ Error_text err,
                   Drop := True\<rparr>]"
  unfolding HttpPost_def assms sum.case by (rule refl)

lemma HttpPost_transport:
  assumes "http_NewRequest net ''POST'' (Url msg) (Body msg) = Inr req0"
      and "client_Do net (timeout * 1000000000) (set_Headers net msg req0) = Inl err"
  shows "HttpPost net msg ackCh timeout =
     ackCh @ [msg\<lparr>HttpErr := Some err,
                   HttpStatusMsg := ''Error on http POST: '' @ Error_text err\<rparr>]"
  unfolding HttpPost_def Let_def assms sum.case by (rule refl)

lemma HttpPost_response:
  assumes "http_NewRequest net ''POST'' (Url msg) (Body msg) = Inr req0"
      and "client_Do net (timeout * 1000000000) (set_Headers net msg req0) = Inr resp"
  shows "HttpPost net msg ackCh timeout =
     ackCh @ [msg\<lparr>HttpStatusMsg :=
                    (case ReadAll_Body resp of Inl e \<Rightarrow> HttpStatusMsg msg | Inr b \<Rightarrow> Status resp),
                  HttpRespBody :=
                    (case ReadAll_Body resp of
                       Inl e \<Rightarrow> ''Error encountered when reading POST response body''
                     | Inr b \<Rightarrow> b),
                  HttpErr :=
                    (if 400 \<le> StatusCode resp \<and> StatusCode resp \<le> 499
                     then Some (Error (''4XX status on http POST (no retry): '' @ Status resp))
                     else if 200 \<le> StatusCode resp \<and> StatusCode resp \<le> 299 then HttpErr msg
                     else Some (Error (''Error on http POST: '' @ Status resp))),
                  Drop :=
                    (if 400 \<le> StatusCode resp \<and> StatusCode resp \<le> 499 then True
                     else if 200 \<le> StatusCode resp \<and> StatusCode resp \<le> 299 then True
                     else Drop msg)\<rparr>]"
proof -
  define c4 where "c4 \<longleftrightarrow> 400 \<le> StatusCode resp \<and> StatusCode resp \<le> 499"
  define c2 where "c2 \<longleftrightarrow> 200 \<le> StatusCode resp \<and> StatusCode resp \<le> 299"
  define e4 where "e4 = Error (''4XX status on http POST (no retry): '' @ Status resp)"
  define e5 where "e5 = Error (''Error on http POST: '' @ Status resp)"
  define sentinel where "sentinel = ''Error encountered when reading POST response body''"
  show ?thesis
    unfolding HttpPost_def Let_def assms sum.case
    unfolding c4_def [symmetric] c2_def [symmetric] e4_def [symmetric] e5_def [symmetric]
      sentinel_def [symmetric]
    by (cases "ReadAll_Body resp"; cases c4; cases c2) simp_all
qed

lemma HttpPost_sends_updated_copy:
  "\<exists>s b e d. HttpPost net msg ackCh timeout =
     ackCh @ [msg\<lparr>HttpStatusMsg := s, HttpRespBody := b, HttpErr := e, Drop := d\<rparr>]"
proof (cases "http_NewRequest net ''POST'' (Url msg) (Body msg)")
  case (Inl err)
  have "HttpPost net msg ackCh timeout =
      ackCh @ [msg\<lparr>HttpStatusMsg := ''Invalid http request: '' @ Error_text err,
                    HttpRespBody := HttpRespBody msg, HttpErr := Some err, Drop := True\<rparr>]"
    unfolding HttpPost_construction [OF Inl] by simp
  then show ?thesis by blast
next
  case (Inr req0)
  show ?thesis
  proof (cases "client_Do net (timeout * 1000000000) (set_Headers net msg req0)")
    case (Inl err)
    have "HttpPost net msg ackCh timeout =
        ackCh @ [msg\<lparr>HttpStatusMsg := ''Error on http POST: '' @ Error_text err,
                      HttpRespBody := HttpRespBody msg, HttpErr := Some err, Drop := Drop msg\<rparr>]"
      unfolding HttpPost_transport [OF Inr Inl] by simp
    then show ?thesis by blast
  next
    case (Inr resp)
    from HttpPost_response [OF \<open>http_NewRequest net ''POST'' (Url msg) (Body msg) = Inr req0\<close> Inr]
    show ?thesis by blast
  qed
qed

lemma assign_new_variable: "assign (store @ [m]) (length store) f = store @ [f m]"
  by (simp add: assign_def)

lemma nth_new_variable: "(store @ [m]) ! length store = m"
  by simp

text \<open>
  With the variables in a store, \<open>HttpPost\<close> adds one variable, its receiver, and
  sends that variable's last value; the channel is the one \<open>HttpPost\<close> on the
  caller's value gives.
\<close>

lemma HttpPost_store_new_variable:
  "\<exists>out. HttpPost_store net store caller ackCh timeout = (store @ [out], ackCh @ [out]) \<and>
         HttpPost net (store ! caller) ackCh timeout = ackCh @ [out]"
proof (cases "http_NewRequest net ''POST'' (Url (store ! caller)) (Body (store ! caller))")
  case (Inl err)
  show ?thesis
    unfolding HttpPost_store_def Let_def nth_new_variable assign_new_variable Inl sum.case
      HttpPost_construction [OF Inl]
    by simp
next
  case req: (Inr req0)
  show ?thesis
  proof (cases "client_Do net (timeout * 1000000000) (set_Headers net (store ! caller) req0)")
    case (Inl err)
    show ?thesis
      unfolding HttpPost_store_def Let_def nth_new_variable assign_new_variable req Inl sum.case
        HttpPost_transport [OF req Inl]
      by simp
  next
    case (Inr resp)
    define c4 where "c4 \<longleftrightarrow> 400 \<le> StatusCode resp \<and> StatusCode resp \<le> 499"
    define c2 where "c2 \<longleftrightarrow> 200 \<le> StatusCode resp \<and> StatusCode resp \<le> 299"
    define e4 where "e4 = Error (''4XX status on http POST (no retry): '' @ Status resp)"
    define e5 where "e5 = Error (''Error on http POST: '' @ Status resp)"
    define sentinel where "sentinel = ''Error encountered when reading POST response body''"
    show ?thesis
      unfolding HttpPost_store_def Let_def nth_new_variable req Inr sum.case
        HttpPost_response [OF req Inr]
      unfolding c4_def [symmetric] c2_def [symmetric] e4_def [symmetric] e5_def [symmetric]
        sentinel_def [symmetric]
      by (cases "ReadAll_Body resp"; cases c4; cases c2)
         (simp_all add: assign_new_variable)
  qed
qed

lemmas sample_net_defs =
  sample_net_def sample_NewRequest_def sample_Do_def zero_Message_def zero_Delivery_def
  set_Headers_def

text \<open>
  \<open>HttpPost\<close> on the sample network, one descriptor for each way out: a URL that
  does not parse, a host that is down, and the statuses 201, 404 and 503.
\<close>

lemma HttpPost_samples:
  "map disposition (HttpPost sample_net (zero_Message\<lparr>Url := ''http://bad url''\<rparr>) [] 5) = [Dropped]"
  "map disposition (HttpPost sample_net (zero_Message\<lparr>Url := ''http://down/''\<rparr>) [] 5) = [RetryEligible]"
  "map disposition (HttpPost sample_net (zero_Message\<lparr>Url := ''http://x/201''\<rparr>) [] 5) = [Accepted]"
  "map disposition (HttpPost sample_net (zero_Message\<lparr>Url := ''http://x/404''\<rparr>) [] 5) = [Dropped]"
  "map disposition (HttpPost sample_net (zero_Message\<lparr>Url := ''http://x/503''\<rparr>) [] 5) = [RetryEligible]"
  "map HttpErr (HttpPost sample_net (zero_Message\<lparr>Url := ''http://x/201''\<rparr>) [] 5) = [None]"
  "map HttpErr (HttpPost sample_net (zero_Message\<lparr>Url := ''http://x/503''\<rparr>) [] 5) =
     [Some (Error ''Error on http POST: 503 Service Unavailable'')]"
  by (simp_all add: HttpPost_def sample_net_defs disposition_def)

section \<open>HttpPost: the claims\<close>

text \<open>
  C2. Every call of \<open>HttpPost\<close> sends exactly one record on the channel, on every
  path: the channel after the call is the channel before it with one record appended.
  \<open>HttpPost\<close> returns nothing, and the error of a failed request construction or of
  a failed transport is the \<open>HttpErr\<close> of that record.
\<close>

theorem HttpPost_pushes_exactly_one:
  "\<exists>out. HttpPost net msg ackCh timeout = ackCh @ [out] \<and>
     (\<forall>err. http_NewRequest net ''POST'' (Url msg) (Body msg) = Inl err \<longrightarrow>
        HttpErr out = Some err) \<and>
     (\<forall>req0 err. http_NewRequest net ''POST'' (Url msg) (Body msg) = Inr req0 \<longrightarrow>
        client_Do net (timeout * 1000000000) (set_Headers net msg req0) = Inl err \<longrightarrow>
        HttpErr out = Some err)"
proof (cases "http_NewRequest net ''POST'' (Url msg) (Body msg)")
  case (Inl err)
  show ?thesis
    by (rule exI, rule conjI, rule HttpPost_construction [OF Inl]) (simp add: Inl)
next
  case req: (Inr req0)
  show ?thesis
  proof (cases "client_Do net (timeout * 1000000000) (set_Headers net msg req0)")
    case (Inl err)
    show ?thesis
      by (rule exI, rule conjI, rule HttpPost_transport [OF req Inl]) (simp add: req Inl)
  next
    case (Inr resp)
    from HttpPost_sends_updated_copy [of net msg ackCh timeout]
    obtain out where "HttpPost net msg ackCh timeout = ackCh @ [out]" by blast
    then show ?thesis using req Inr by auto
  qed
qed

theorem HttpPost_pushes_exactly_one_witness:
  "length (HttpPost sample_net (zero_Message\<lparr>Url := ''http://down/''\<rparr>) [] 5) = 1 \<and>
   HttpErr (last (HttpPost sample_net (zero_Message\<lparr>Url := ''http://down/''\<rparr>) [] 5)) =
     Some (Error ''dial tcp: connection refused'')"
proof -
  have n: "http_NewRequest sample_net ''POST'' (Url (zero_Message\<lparr>Url := ''http://down/''\<rparr>))
             (Body (zero_Message\<lparr>Url := ''http://down/''\<rparr>)) = Inr ''http://down/''"
    by (simp add: sample_net_defs)
  have d: "client_Do sample_net (5 * 1000000000)
             (set_Headers sample_net (zero_Message\<lparr>Url := ''http://down/''\<rparr>) ''http://down/'') =
           Inl (Error ''dial tcp: connection refused'')"
    by (simp add: sample_net_defs)
  from HttpPost_pushes_exactly_one [of sample_net "zero_Message\<lparr>Url := ''http://down/''\<rparr>" "[]" 5]
  obtain out where o: "HttpPost sample_net (zero_Message\<lparr>Url := ''http://down/''\<rparr>) [] 5 = [] @ [out]"
    and e: "\<forall>req0 err. http_NewRequest sample_net ''POST'' (Url (zero_Message\<lparr>Url := ''http://down/''\<rparr>))
             (Body (zero_Message\<lparr>Url := ''http://down/''\<rparr>)) = Inr req0 \<longrightarrow>
        client_Do sample_net (5 * 1000000000)
          (set_Headers sample_net (zero_Message\<lparr>Url := ''http://down/''\<rparr>) req0) = Inl err \<longrightarrow>
        HttpErr out = Some err"
    by blast
  from e n d have "HttpErr out = Some (Error ''dial tcp: connection refused'')" by blast
  with o show ?thesis by simp
qed

text \<open>
  C9. \<open>HttpPost\<close> never writes to the caller's descriptor. Its receiver is a value,
  so it assigns the outcome fields to a variable of its own: after the call the
  caller's variable, like every variable that existed before the call, holds what it
  held, and the record sent is the caller's descriptor with only the four outcome
  fields \<open>HttpStatusMsg\<close>, \<open>HttpRespBody\<close>, \<open>HttpErr\<close> and \<open>Drop\<close> set.
\<close>

theorem HttpPost_store_keeps_caller_descriptor:
  assumes "caller < length store"
  shows "\<exists>store' out.
     HttpPost_store net store caller ackCh timeout = (store', ackCh @ [out]) \<and>
     store' ! caller = store ! caller \<and>
     take (length store) store' = store \<and>
     (\<exists>s b e d. out =
        (store ! caller)\<lparr>HttpStatusMsg := s, HttpRespBody := b, HttpErr := e, Drop := d\<rparr>)"
proof -
  from HttpPost_store_new_variable [of net store caller ackCh timeout]
  obtain out where st: "HttpPost_store net store caller ackCh timeout = (store @ [out], ackCh @ [out])"
    and ch: "HttpPost net (store ! caller) ackCh timeout = ackCh @ [out]"
    by blast
  from HttpPost_sends_updated_copy [of net "store ! caller" ackCh timeout] ch
  have fr: "\<exists>s b e d. out =
        (store ! caller)\<lparr>HttpStatusMsg := s, HttpRespBody := b, HttpErr := e, Drop := d\<rparr>"
    by auto
  have "(store @ [out]) ! caller = store ! caller"
    using assms by (simp add: nth_append)
  moreover have "take (length store) (store @ [out]) = store" by simp
  ultimately show ?thesis using st fr by blast
qed

theorem HttpPost_store_keeps_caller_descriptor_witness:
  "fst (HttpPost_store sample_net [zero_Message\<lparr>Url := ''http://x/404''\<rparr>] 0 [] 5) ! 0 =
     zero_Message\<lparr>Url := ''http://x/404''\<rparr> \<and>
   map Drop (snd (HttpPost_store sample_net [zero_Message\<lparr>Url := ''http://x/404''\<rparr>] 0 [] 5)) =
     [True] \<and>
   Drop (zero_Message\<lparr>Url := ''http://x/404''\<rparr>) = False"
proof -
  let ?m = "zero_Message\<lparr>Url := ''http://x/404''\<rparr>"
  have a: "0 < length [?m]" by simp
  from HttpPost_store_keeps_caller_descriptor [OF a, of sample_net "[]" 5]
  obtain store' out where st: "HttpPost_store sample_net [?m] 0 [] 5 = (store', [] @ [out])"
    and same: "store' ! 0 = [?m] ! 0"
    by blast
  from HttpPost_store_new_variable [of sample_net "[?m]" 0 "[]" 5] st
  have "HttpPost sample_net ([?m] ! 0) [] 5 = [] @ [out]" by auto
  then have "HttpPost sample_net ?m [] 5 = [out]" by simp
  then have "[Drop out] = map Drop (HttpPost sample_net ?m [] 5)" by simp
  also have "\<dots> = [True]"
    by (simp add: HttpPost_def sample_net_defs)
  finally have d: "Drop out = True" by simp
  have "Drop ?m = False" by (simp add: zero_Message_def)
  with st same d show ?thesis by simp
qed

text \<open>
  C1. For a descriptor whose outcome is still unset (\<open>Drop\<close> false and \<open>HttpErr\<close>
  nil, as \<open>Parse\<close> leaves them), the record sent is classified in this order: a
  failed request construction gives Dropped with the construction error; otherwise a
  failed transport gives RetryEligible with the transport error; otherwise the status
  code decides: 400 to 499 gives Dropped with an error, 200 to 299 gives Accepted
  with no error, and any other code gives RetryEligible with an error that carries
  the status text.
\<close>

theorem HttpPost_disposition_precedence:
  assumes "\<not> Drop msg" and "HttpErr msg = None"
  shows "\<exists>out. HttpPost net msg ackCh timeout = ackCh @ [out] \<and>
     (\<forall>err. http_NewRequest net ''POST'' (Url msg) (Body msg) = Inl err \<longrightarrow>
        disposition out = Dropped \<and> HttpErr out = Some err) \<and>
     (\<forall>req0. http_NewRequest net ''POST'' (Url msg) (Body msg) = Inr req0 \<longrightarrow>
        (\<forall>err. client_Do net (timeout * 1000000000) (set_Headers net msg req0) = Inl err \<longrightarrow>
           disposition out = RetryEligible \<and> HttpErr out = Some err) \<and>
        (\<forall>resp. client_Do net (timeout * 1000000000) (set_Headers net msg req0) = Inr resp \<longrightarrow>
           (400 \<le> StatusCode resp \<and> StatusCode resp \<le> 499 \<longrightarrow>
              disposition out = Dropped \<and>
              HttpErr out = Some (Error (''4XX status on http POST (no retry): '' @ Status resp))) \<and>
           (200 \<le> StatusCode resp \<and> StatusCode resp \<le> 299 \<longrightarrow>
              disposition out = Accepted \<and> HttpErr out = None) \<and>
           (\<not> (400 \<le> StatusCode resp \<and> StatusCode resp \<le> 499) \<and>
            \<not> (200 \<le> StatusCode resp \<and> StatusCode resp \<le> 299) \<longrightarrow>
              disposition out = RetryEligible \<and>
              HttpErr out = Some (Error (''Error on http POST: '' @ Status resp)))))"
proof (cases "http_NewRequest net ''POST'' (Url msg) (Body msg)")
  case (Inl err)
  show ?thesis
    by (rule exI, rule conjI, rule HttpPost_construction [OF Inl])
       (simp add: Inl disposition_def)
next
  case req: (Inr req0)
  show ?thesis
  proof (cases "client_Do net (timeout * 1000000000) (set_Headers net msg req0)")
    case (Inl err)
    show ?thesis
      by (rule exI, rule conjI, rule HttpPost_transport [OF req Inl])
         (simp add: req Inl disposition_def assms)
  next
    case (Inr resp)
    define c4 where "c4 \<longleftrightarrow> 400 \<le> StatusCode resp \<and> StatusCode resp \<le> 499"
    define c2 where "c2 \<longleftrightarrow> 200 \<le> StatusCode resp \<and> StatusCode resp \<le> 299"
    have excl: "\<not> (c4 \<and> c2)" by (auto simp: c4_def c2_def)
    define e4 where "e4 = Error (''4XX status on http POST (no retry): '' @ Status resp)"
    define e5 where "e5 = Error (''Error on http POST: '' @ Status resp)"
    obtain out where out: "HttpPost net msg ackCh timeout = ackCh @ [out]"
      and err: "HttpErr out = (if c4 then Some e4 else if c2 then HttpErr msg else Some e5)"
      and drop: "Drop out = (if c4 then True else if c2 then True else Drop msg)"
      using HttpPost_response [OF req Inr, of ackCh]
      unfolding c4_def [symmetric] c2_def [symmetric] e4_def [symmetric] e5_def [symmetric]
      by simp
    have "(c4 \<longrightarrow> disposition out = Dropped \<and> HttpErr out = Some e4) \<and>
          (c2 \<longrightarrow> disposition out = Accepted \<and> HttpErr out = None) \<and>
          (\<not> c4 \<and> \<not> c2 \<longrightarrow> disposition out = RetryEligible \<and> HttpErr out = Some e5)"
      using excl by (auto simp: disposition_def err drop assms)
    then show ?thesis
      unfolding c4_def c2_def e4_def e5_def using out req Inr by simp
  qed
qed

theorem HttpPost_disposition_precedence_witness:
  "disposition (last (HttpPost sample_net (zero_Message\<lparr>Url := ''http://x/404''\<rparr>) [] 5)) = Dropped \<and>
   HttpErr (last (HttpPost sample_net (zero_Message\<lparr>Url := ''http://x/404''\<rparr>) [] 5)) =
     Some (Error ''4XX status on http POST (no retry): 404 Not Found'')"
proof -
  let ?msg = "zero_Message\<lparr>Url := ''http://x/404''\<rparr>"
  let ?resp = "\<lparr>Status = ''404 Not Found'', StatusCode = 404, ReadAll_Body = Inr []\<rparr>"
  have a: "\<not> Drop ?msg" "HttpErr ?msg = None"
    by (simp_all add: zero_Message_def)
  have n: "http_NewRequest sample_net ''POST'' (Url ?msg) (Body ?msg) = Inr ''http://x/404''"
    by (simp add: sample_net_defs)
  have d: "client_Do sample_net (5 * 1000000000) (set_Headers sample_net ?msg ''http://x/404'') =
           Inr ?resp"
    by (simp add: sample_net_defs)
  have c: "400 \<le> StatusCode ?resp \<and> StatusCode ?resp \<le> 499" by simp
  from HttpPost_disposition_precedence [OF a, of sample_net "[]" 5]
  obtain out where o: "HttpPost sample_net ?msg [] 5 = [] @ [out]"
    and r: "\<forall>req0. http_NewRequest sample_net ''POST'' (Url ?msg) (Body ?msg) = Inr req0 \<longrightarrow>
        (\<forall>err. client_Do sample_net (5 * 1000000000) (set_Headers sample_net ?msg req0) = Inl err \<longrightarrow>
           disposition out = RetryEligible \<and> HttpErr out = Some err) \<and>
        (\<forall>resp. client_Do sample_net (5 * 1000000000) (set_Headers sample_net ?msg req0) = Inr resp \<longrightarrow>
           (400 \<le> StatusCode resp \<and> StatusCode resp \<le> 499 \<longrightarrow>
              disposition out = Dropped \<and>
              HttpErr out = Some (Error (''4XX status on http POST (no retry): '' @ Status resp))) \<and>
           (200 \<le> StatusCode resp \<and> StatusCode resp \<le> 299 \<longrightarrow>
              disposition out = Accepted \<and> HttpErr out = None) \<and>
           (\<not> (400 \<le> StatusCode resp \<and> StatusCode resp \<le> 499) \<and>
            \<not> (200 \<le> StatusCode resp \<and> StatusCode resp \<le> 299) \<longrightarrow>
              disposition out = RetryEligible \<and>
              HttpErr out = Some (Error (''Error on http POST: '' @ Status resp))))"
    by blast
  from r n d c have "disposition out = Dropped \<and>
      HttpErr out = Some (Error (''4XX status on http POST (no retry): '' @ Status ?resp))"
    by blast
  with o show ?thesis by simp
qed

text \<open>
  C10. When a response arrives and reading its body fails, the record sent holds the
  sentinel text in \<open>HttpRespBody\<close>, its \<open>HttpStatusMsg\<close> is still the empty string
  of the descriptor before the call (the status line is not recorded), and \<open>Drop\<close>
  and \<open>HttpErr\<close> are set from the status code as on every other response.
\<close>

theorem HttpPost_body_read_failure:
  assumes "http_NewRequest net ''POST'' (Url msg) (Body msg) = Inr req0"
      and "client_Do net (timeout * 1000000000) (set_Headers net msg req0) = Inr resp"
      and "ReadAll_Body resp = Inl e"
      and "HttpStatusMsg msg = []"
  shows "\<exists>out. HttpPost net msg ackCh timeout = ackCh @ [out] \<and>
     HttpRespBody out = ''Error encountered when reading POST response body'' \<and>
     HttpStatusMsg out = [] \<and>
     Drop out =
       (if 400 \<le> StatusCode resp \<and> StatusCode resp \<le> 499 then True
        else if 200 \<le> StatusCode resp \<and> StatusCode resp \<le> 299 then True
        else Drop msg) \<and>
     HttpErr out =
       (if 400 \<le> StatusCode resp \<and> StatusCode resp \<le> 499
        then Some (Error (''4XX status on http POST (no retry): '' @ Status resp))
        else if 200 \<le> StatusCode resp \<and> StatusCode resp \<le> 299 then HttpErr msg
        else Some (Error (''Error on http POST: '' @ Status resp)))"
proof -
  define c4 where "c4 \<longleftrightarrow> 400 \<le> StatusCode resp \<and> StatusCode resp \<le> 499"
  define c2 where "c2 \<longleftrightarrow> 200 \<le> StatusCode resp \<and> StatusCode resp \<le> 299"
  show ?thesis
    unfolding c4_def [symmetric] c2_def [symmetric]
    by (rule exI, rule conjI,
        rule HttpPost_response [OF assms(1,2), unfolded c4_def [symmetric] c2_def [symmetric]])
       (simp add: assms(3,4))
qed

theorem HttpPost_body_read_failure_witness:
  "HttpRespBody (last (HttpPost sample_net (zero_Message\<lparr>Url := ''http://x/broken''\<rparr>) [] 5)) =
     ''Error encountered when reading POST response body'' \<and>
   HttpStatusMsg (last (HttpPost sample_net (zero_Message\<lparr>Url := ''http://x/broken''\<rparr>) [] 5)) = [] \<and>
   Drop (last (HttpPost sample_net (zero_Message\<lparr>Url := ''http://x/broken''\<rparr>) [] 5)) \<and>
   HttpErr (last (HttpPost sample_net (zero_Message\<lparr>Url := ''http://x/broken''\<rparr>) [] 5)) = None"
proof -
  let ?msg = "zero_Message\<lparr>Url := ''http://x/broken''\<rparr>"
  let ?resp = "\<lparr>Status = ''200 OK'', StatusCode = 200,
                 ReadAll_Body = Inl (Error ''unexpected EOF'')\<rparr>"
  have n: "http_NewRequest sample_net ''POST'' (Url ?msg) (Body ?msg) = Inr ''http://x/broken''"
    by (simp add: sample_net_defs)
  have d: "client_Do sample_net (5 * 1000000000) (set_Headers sample_net ?msg ''http://x/broken'') =
           Inr ?resp"
    by (simp add: sample_net_defs)
  have b: "ReadAll_Body ?resp = Inl (Error ''unexpected EOF'')" by simp
  have s: "HttpStatusMsg ?msg = []" "HttpErr ?msg = None"
    by (simp_all add: zero_Message_def)
  from HttpPost_body_read_failure [OF n d b s(1), of "[]"]
  obtain out where o: "HttpPost sample_net ?msg [] 5 = [] @ [out]"
    and f: "HttpRespBody out = ''Error encountered when reading POST response body''"
      "HttpStatusMsg out = []"
      "Drop out = (if 400 \<le> StatusCode ?resp \<and> StatusCode ?resp \<le> 499 then True
        else if 200 \<le> StatusCode ?resp \<and> StatusCode ?resp \<le> 299 then True
        else Drop ?msg)"
      "HttpErr out = (if 400 \<le> StatusCode ?resp \<and> StatusCode ?resp \<le> 499
        then Some (Error (''4XX status on http POST (no retry): '' @ Status ?resp))
        else if 200 \<le> StatusCode ?resp \<and> StatusCode ?resp \<le> 299 then HttpErr ?msg
        else Some (Error (''Error on http POST: '' @ Status ?resp)))"
    by blast
  from f(3) have "Drop out" by simp
  moreover from f(4) s(2) have "HttpErr out = None" by simp
  ultimately show ?thesis using o f(1,2) by simp
qed

end
